theory Spec2Isabelle
  imports Main "HOL-Library.AList"
begin

section \<open>JavaScript values\<close>

text \<open>
  The values that flow through \<^verbatim>\<open>packages/http/lib/index.js\<close>. A string is a list of
  characters, each one UTF-16 code unit in the range 0..255; a Buffer and the content of a
  readable stream are lists of bytes. Numbers are the integer-valued ones. A promise is
  given with the way it settles later. An object made by \<^verbatim>\<open>send\<close> carries the
  private symbol \<^verbatim>\<open>IS_RESPONSE\<close>; an object literal with the same three fields does not.
  The value of a header is a string or a number.
\<close>

datatype 'a settlement = Unsettled | Fulfilled 'a | Rejected 'a

datatype header_value = HStr string | HNum int

datatype jsval =
    Undefined
  | Null
  | Bool bool
  | Num int
  | Str string
  | Func
  | Buffer string
  | Readable string
  | Object "(string \<times> jsval) list"
  | Array "jsval list"
  | Promise "jsval settlement"
  | Error string string
  | ResponseError int string jsval string
  | Descriptor response
and response =
    Response (is_response: bool) (data: jsval) (statusCode: int)
      (headers: "(string \<times> header_value) list")

datatype js_exception =
    TypeError
  | ERR_INVALID_ARG_TYPE
  | ERR_HTTP_HEADERS_SENT
  | ERR_INVALID_HTTP_TOKEN
  | ERR_INVALID_CHAR
  | ERR_HTTP_INVALID_STATUS_CODE

text \<open>
  Truthiness, as tested by \<^verbatim>\<open>if (err)\<close>, \<^verbatim>\<open>!x\<close> and \<^verbatim>\<open>c ? a : b\<close>; a header that is
  not set reads as \<^verbatim>\<open>undefined\<close>.
\<close>

fun truthy_header :: "header_value option \<Rightarrow> bool" where
  "truthy_header None = False"
| "truthy_header (Some (HStr s)) = (s \<noteq> [])"
| "truthy_header (Some (HNum n)) = (n \<noteq> 0)"

fun truthy :: "jsval \<Rightarrow> bool" where
  "truthy Undefined = False"
| "truthy Null = False"
| "truthy (Bool b) = b"
| "truthy (Num n) = (n \<noteq> 0)"
| "truthy (Str s) = (s \<noteq> [])"
| "truthy _ = True"

fun typeof :: "jsval \<Rightarrow> string" where
  "typeof Undefined = ''undefined''"
| "typeof (Bool _) = ''boolean''"
| "typeof (Num _) = ''number''"
| "typeof (Str _) = ''string''"
| "typeof Func = ''function''"
| "typeof _ = ''object''"

text \<open>\<^verbatim>\<open>Buffer.isBuffer(data)\<close> and \<^verbatim>\<open>data instanceof Stream || readable(data)\<close>.\<close>

fun isBuffer :: "jsval \<Rightarrow> bool" where
  "isBuffer (Buffer _) = True"
| "isBuffer _ = False"

fun isStream :: "jsval \<Rightarrow> bool" where
  "isStream (Readable _) = True"
| "isStream _ = False"

text \<open>The UTF-8 bytes of a string: what \<^verbatim>\<open>res.end(str)\<close> puts on the wire.\<close>

definition utf8_char :: "char \<Rightarrow> string" where
  "utf8_char c =
     (let n = (of_char c :: nat) in
      if n < 128 then [c] else [char_of (192 + n div 64), char_of (128 + n mod 64)])"

definition utf8 :: "string \<Rightarrow> string" where
  "utf8 s = concat (map utf8_char s)"

text \<open>
  \<^verbatim>\<open>Buffer.byteLength(x)\<close>: the number of bytes of a string's UTF-8 encoding or of a
  Buffer; any other argument is rejected with a TypeError (code \<^verbatim>\<open>ERR_INVALID_ARG_TYPE\<close>).
\<close>

fun byteLength :: "jsval \<Rightarrow> js_exception + nat" where
  "byteLength (Str s) = Inr (length (utf8 s))"
| "byteLength (Buffer b) = Inr (length b)"
| "byteLength _ = Inl ERR_INVALID_ARG_TYPE"

text \<open>The bytes of a chunk handed to \<^verbatim>\<open>res.end\<close>.\<close>

fun chunk_bytes :: "jsval \<Rightarrow> string" where
  "chunk_bytes (Str s) = utf8 s"
| "chunk_bytes (Buffer b) = b"
| "chunk_bytes _ = []"

text \<open>The \<^verbatim>\<open>stack\<close> property of a value that is neither null nor undefined.\<close>

fun stack_of :: "jsval \<Rightarrow> jsval" where
  "stack_of (Error m s) = Str s"
| "stack_of (ResponseError c m orig s) = Str s"
| "stack_of (Object kvs) = (case map_of kvs ''stack'' of None \<Rightarrow> Undefined | Some v \<Rightarrow> v)"
| "stack_of _ = Undefined"

section \<open>The runtime\<close>

text \<open>
  What the module takes from its runtime and does not define: the environment variable
  \<^verbatim>\<open>NODE_ENV\<close>, \<^verbatim>\<open>JSON.stringify\<close> (with the indentation, when one is given), and the
  stack trace an \<^verbatim>\<open>Error\<close> captures when it is constructed with a message.
\<close>

record platform =
  NODE_ENV :: "string option"
  JSON_stringify :: "jsval \<Rightarrow> nat option \<Rightarrow> string"
  captureStackTrace :: "string \<Rightarrow> string"

definition DEV :: "platform \<Rightarrow> bool" where
  "DEV P = (NODE_ENV P = Some ''development'')"

section \<open>The response handle of the HTTP server\<close>

text \<open>
  The state of a \<^verbatim>\<open>res\<close> object: the status code and header table that can still be
  changed, the head (status and headers) once it has been flushed, whether the response
  may carry a body, the body bytes written so far, and whether the response has been
  ended. Header names are kept in lower case, since the server compares them without
  regard to case. The response to a \<^verbatim>\<open>HEAD\<close> request may carry no body from the start;
  any response loses its body when its head is flushed with a status 1xx, 204 or 304.
\<close>

record server_response =
  res_statusCode :: int
  res_headers :: "(string \<times> header_value) list"
  head :: "(int \<times> (string \<times> header_value) list) option"
  hasBody :: bool
  body :: string
  finished :: bool

text \<open>The response the server creates for a request that is not \<^verbatim>\<open>HEAD\<close>, and for one that is.\<close>

definition new_response :: server_response where
  "new_response =
     \<lparr>res_statusCode = 200, res_headers = [], head = None, hasBody = True, body = [],
      finished = False\<rparr>"

definition new_head_response :: server_response where
  "new_head_response = new_response\<lparr>hasBody := False\<rparr>"

definition bodyless :: "int \<Rightarrow> bool" where
  "bodyless code = (code = 204 \<or> code = 304 \<or> (100 \<le> code \<and> code \<le> 199))"

definition headersSent :: "server_response \<Rightarrow> bool" where
  "headersSent r = (head r \<noteq> None)"

text \<open>A call on the handle either returns, or throws and leaves the handle as it is then.\<close>

datatype effect = Done server_response | Threw js_exception server_response

fun and_then :: "effect \<Rightarrow> (server_response \<Rightarrow> effect) \<Rightarrow> effect" where
  "and_then (Done r) f = f r"
| "and_then (Threw e r) f = Threw e r"

fun state_of :: "effect \<Rightarrow> server_response" where
  "state_of (Done r) = r"
| "state_of (Threw e r) = r"

fun thrown :: "effect \<Rightarrow> js_exception option" where
  "thrown (Done r) = None"
| "thrown (Threw e r) = Some e"

definition lower_char :: "char \<Rightarrow> char" where
  "lower_char c =
     (let n = (of_char c :: nat) in if 65 \<le> n \<and> n \<le> 90 then char_of (n + 32) else c)"

definition toLowerCase :: "string \<Rightarrow> string" where
  "toLowerCase s = map lower_char s"

text \<open>The characters of an HTTP token, and those allowed in a header value.\<close>

definition token_char :: "char \<Rightarrow> bool" where
  "token_char c =
     (let n = (of_char c :: nat) in
      (48 \<le> n \<and> n \<le> 57) \<or> (65 \<le> n \<and> n \<le> 90) \<or> (94 \<le> n \<and> n \<le> 122) \<or>
      n \<in> set [33, 35, 36, 37, 38, 39, 42, 43, 45, 46, 124, 126])"

definition validHeaderName :: "string \<Rightarrow> bool" where
  "validHeaderName name = (name \<noteq> [] \<and> list_all token_char name)"

definition header_char :: "char \<Rightarrow> bool" where
  "header_char c = (let n = (of_char c :: nat) in n = 9 \<or> (32 \<le> n \<and> n \<noteq> 127))"

fun validHeaderValue :: "header_value \<Rightarrow> bool" where
  "validHeaderValue (HStr s) = list_all header_char s"
| "validHeaderValue (HNum n) = True"

text \<open>
  \<^verbatim>\<open>res.setHeader(name, value)\<close> throws once the head has been flushed, and on a name
  or a value that is not valid.
\<close>

definition setHeader :: "string \<Rightarrow> header_value \<Rightarrow> server_response \<Rightarrow> effect" where
  "setHeader name v r =
     (if headersSent r then Threw ERR_HTTP_HEADERS_SENT r
      else if \<not> validHeaderName name then Threw ERR_INVALID_HTTP_TOKEN r
      else if \<not> validHeaderValue v then Threw ERR_INVALID_CHAR r
      else Done (r\<lparr>res_headers := AList.update (toLowerCase name) v (res_headers r)\<rparr>))"

definition getHeader :: "string \<Rightarrow> server_response \<Rightarrow> header_value option" where
  "getHeader name r = map_of (res_headers r) (toLowerCase name)"

text \<open>
  Flushing the head, which the first write or \<^verbatim>\<open>end\<close> does: a status code outside
  100..999 is rejected, and a status 1xx, 204 or 304 takes the body away.
\<close>

definition writeHead :: "server_response \<Rightarrow> effect" where
  "writeHead r =
     (if headersSent r then Done r
      else if res_statusCode r < 100 \<or> 999 < res_statusCode r
        then Threw ERR_HTTP_INVALID_STATUS_CODE r
      else Done (r\<lparr>head := Some (res_statusCode r, res_headers r),
                   hasBody := hasBody r \<and> \<not> bodyless (res_statusCode r)\<rparr>))"

text \<open>
  \<^verbatim>\<open>res.end(chunk)\<close>: on a response that has ended already it does nothing; the chunk is
  written only when the response may carry a body.
\<close>

definition res_end :: "string \<Rightarrow> server_response \<Rightarrow> effect" where
  "res_end chunk r =
     (if finished r then Done r
      else and_then (writeHead r)
        (\<lambda>r'. Done (r'\<lparr>body := body r' @ (if hasBody r' then chunk else []),
                        finished := True\<rparr>)))"

text \<open>
  \<^verbatim>\<open>data.pipe(res)\<close> for a stream that yields its bytes and ends: the call itself returns
  at once; the bytes and the end reach the response later, unless the response has ended
  or its status code is rejected then, and the bytes are dropped when the response may
  carry no body.
\<close>

fun pipe_to :: "jsval \<Rightarrow> server_response \<Rightarrow> effect" where
  "pipe_to (Readable bytes) r = Done (state_of (res_end bytes r))"
| "pipe_to _ r = Done r"

section \<open>Preparing and sending a response\<close>

text \<open>
  \<^verbatim>\<open>isResponseObject = o => !!o[IS_RESPONSE]\<close>: reading a property of \<^verbatim>\<open>null\<close> or
  \<^verbatim>\<open>undefined\<close> throws a TypeError; only objects made by \<^verbatim>\<open>send\<close> have the symbol.
\<close>

fun isResponseObject :: "jsval \<Rightarrow> js_exception + bool" where
  "isResponseObject Undefined = Inl TypeError"
| "isResponseObject Null = Inl TypeError"
| "isResponseObject (Descriptor r) = Inr (is_response r)"
| "isResponseObject _ = Inr False"

fun prepareResponse :: "jsval \<Rightarrow> js_exception + response" where
  "prepareResponse (Descriptor r) =
     (case isResponseObject (Descriptor r) of
        Inl e \<Rightarrow> Inl e
      | Inr tagged \<Rightarrow> Inr (if tagged then r else Response False (Descriptor r) 200 []))"
| "prepareResponse v =
     (case isResponseObject v of
        Inl e \<Rightarrow> Inl e
      | Inr tagged \<Rightarrow> Inr (Response False v 200 []))"

text \<open>\<^verbatim>\<open>Object.keys(headers).forEach(header => res.setHeader(header, headers[header]))\<close>\<close>

fun setHeaders :: "(string \<times> header_value) list \<Rightarrow> server_response \<Rightarrow> effect" where
  "setHeaders [] r = Done r"
| "setHeaders ((name, v) # hs) r = and_then (setHeader name v r) (setHeaders hs)"

definition sendResponse :: "platform \<Rightarrow> response \<Rightarrow> server_response \<Rightarrow> effect" where
  "sendResponse P response res =
     (let d = data response;
          res1 = res\<lparr>res_statusCode := statusCode response\<rparr>
      in
      if d = Null then res_end [] res1
      else and_then (setHeaders (headers response) res1) (\<lambda>res2.
        if isBuffer d then
          and_then
            (if \<not> truthy_header (getHeader ''Content-Type'' res2)
             then setHeader ''Content-Type'' (HStr ''application/octet-stream'') res2
             else Done res2)
            (\<lambda>res3.
              and_then (setHeader ''Content-Length'' (HNum (int (length (chunk_bytes d)))) res3)
                (res_end (chunk_bytes d)))
        else if isStream d then
          and_then
            (if \<not> truthy_header (getHeader ''Content-Type'' res2)
             then setHeader ''Content-Type'' (HStr ''application/octet-stream'') res2
             else Done res2)
            (pipe_to d)
        else
          (let json = (typeof d = ''object'' \<or> typeof d = ''number'');
               str = (if json
                      then Str (JSON_stringify P d (if DEV P then Some 2 else None))
                      else d)
           in
           and_then
             (if json \<and> \<not> truthy_header (getHeader ''Content-Type'' res2)
              then setHeader ''Content-Type'' (HStr ''application/json; charset=utf-8'') res2
              else Done res2)
             (\<lambda>res3.
               case byteLength str of
                 Inl e \<Rightarrow> Threw e res3
               | Inr n \<Rightarrow>
                   and_then (setHeader ''Content-Length'' (HNum (int n)) res3)
                     (res_end (chunk_bytes str))))))"

text \<open>
  \<^verbatim>\<open>send(data, statusCode = 200, headers = [])\<close>: an argument left out (or undefined)
  takes its default.
\<close>

definition send :: "jsval \<Rightarrow> int option \<Rightarrow> (string \<times> header_value) list option \<Rightarrow> response" where
  "send d code hs =
     Response True d (case code of None \<Rightarrow> 200 | Some c \<Rightarrow> c)
       (case hs of None \<Rightarrow> [] | Some h \<Rightarrow> h)"

section \<open>Errors\<close>

text \<open>
  \<^verbatim>\<open>class ResponseError extends Error\<close> with \<^verbatim>\<open>statusCode\<close> and
  \<^verbatim>\<open>originalError\<close>; \<^verbatim>\<open>createError\<close> constructs one.
\<close>

definition createError :: "platform \<Rightarrow> int \<Rightarrow> string \<Rightarrow> jsval \<Rightarrow> jsval" where
  "createError P code message originalError =
     ResponseError code message originalError (captureStackTrace P message)"

fun instanceof_ResponseError :: "jsval \<Rightarrow> bool" where
  "instanceof_ResponseError (ResponseError c m orig s) = True"
| "instanceof_ResponseError _ = False"

fun error_message :: "jsval \<Rightarrow> string" where
  "error_message (ResponseError c m orig s) = m"
| "error_message (Error m s) = m"
| "error_message _ = []"

fun error_statusCode :: "jsval \<Rightarrow> int option" where
  "error_statusCode (ResponseError c m orig s) = Some c"
| "error_statusCode _ = None"

fun error_originalError :: "jsval \<Rightarrow> jsval" where
  "error_originalError (ResponseError c m orig s) = orig"
| "error_originalError _ = Undefined"

text \<open>
  \<^verbatim>\<open>prepareErrorResponse\<close> returns the descriptor; the first component is what it
  passes to \<^verbatim>\<open>console.error\<close>.
\<close>

definition prepareErrorResponse :: "platform \<Rightarrow> jsval \<Rightarrow> jsval \<times> response" where
  "prepareErrorResponse P e =
     (let error = (if instanceof_ResponseError e then e
                   else createError P 500 ''Internal Server Error'' e)
      in
      (if truthy (error_originalError error) then stack_of (error_originalError error)
       else stack_of error,
       send (Str (error_message error)) (error_statusCode error) None))"

section \<open>Observables\<close>

text \<open>
  An observable is taken by what a subscriber sees of it: the values it emits, in order,
  and how it ends. \<open>Pending\<close> is the sequence that, after its last value, neither
  completes nor fails.
\<close>

datatype ending = Completed | Errored jsval | Pending

datatype 'a observable = Observable (emitted: "'a list") (ending: ending)

definition rx_of :: "'a \<Rightarrow> 'a observable" where
  "rx_of x = Observable [x] Completed"

definition throwError :: "jsval \<Rightarrow> 'a observable" where
  "throwError err = Observable [] (Errored err)"

fun rx_map :: "('a \<Rightarrow> 'b) \<Rightarrow> 'a observable \<Rightarrow> 'b observable" where
  "rx_map f (Observable xs t) = Observable (map f xs) t"

fun prepend :: "'a list \<Rightarrow> 'a observable \<Rightarrow> 'a observable" where
  "prepend xs (Observable ys t) = Observable (xs @ ys) t"

text \<open>\<^verbatim>\<open>catchError(selector)\<close>: when the source fails, the selector's observable goes on.\<close>

fun catchError :: "(jsval \<Rightarrow> 'a observable) \<Rightarrow> 'a observable \<Rightarrow> 'a observable" where
  "catchError selector (Observable xs (Errored err)) = prepend xs (selector err)"
| "catchError selector (Observable xs t) = Observable xs t"

text \<open>
  \<^verbatim>\<open>mergeMap(project)\<close> subscribes to the inner observable of every source value as it
  arrives, with no limit on how many are open. It fails as soon as an inner observable
  or the source fails, and completes once the source and every inner observable have
  completed. The values of one inner observable keep their order; here every inner
  observable has emitted its values before the next source value arrives, as the
  synchronous ones do.
\<close>

fun mergeMap_from ::
  "('a \<Rightarrow> 'b observable) \<Rightarrow> 'a list \<Rightarrow> ending \<Rightarrow> bool \<Rightarrow> 'b observable" where
  "mergeMap_from project [] t idle =
     Observable []
       (case t of
          Completed \<Rightarrow> if idle then Completed else Pending
        | Errored err \<Rightarrow> Errored err
        | Pending \<Rightarrow> Pending)"
| "mergeMap_from project (x # xs) t idle =
     (case project x of
        Observable ys (Errored err) \<Rightarrow> Observable ys (Errored err)
      | Observable ys t' \<Rightarrow>
          prepend ys (mergeMap_from project xs t (idle \<and> t' = Completed)))"

definition mergeMap :: "('a \<Rightarrow> 'b observable) \<Rightarrow> 'a observable \<Rightarrow> 'b observable" where
  "mergeMap project source = mergeMap_from project (emitted source) (ending source) True"

text \<open>
  \<^verbatim>\<open>multicast(() => new Subject())\<close> makes a connectable observable: \<^verbatim>\<open>connect()\<close>
  subscribes a subject to the source, and the sequence below is what that subject
  receives.
\<close>

definition multicast :: "'a observable \<Rightarrow> 'a observable" where
  "multicast source = source"


section \<open>The request source\<close>

text \<open>A Request Event pairs the handles of a request and of its response.\<close>

record request_event =
  req :: nat
  res :: nat





section \<open>Dispatch\<close>

text \<open>
  What a call of the handler does: it throws, or it returns an \<^verbatim>\<open>Observable\<close>, or it
  returns any other value (a promise is such a value).
\<close>

datatype handler_result =
    Throws jsval
  | ReturnsObservable "jsval observable"
  | Returns jsval

type_synonym triple = "request_event \<times> jsval \<times> jsval"

text \<open>
  \<^verbatim>\<open>mapToObservable(f)\<close> is \<^verbatim>\<open>pipe\<close> of one function, which is that function; used as
  an operator, it is applied to the observable before it in the pipe.
\<close>

definition mapToObservable :: "('x \<Rightarrow> handler_result) \<Rightarrow> 'x \<Rightarrow> jsval observable" where
  "mapToObservable f x =
     (case f x of
        Throws err \<Rightarrow> throwError err
      | ReturnsObservable result \<Rightarrow> result
      | Returns result \<Rightarrow> rx_of result)"

text \<open>The inner pipe of \<^verbatim>\<open>run\<close>, for one Request Event.\<close>

definition dispatch ::
  "(request_event observable \<Rightarrow> handler_result) \<Rightarrow> request_event \<Rightarrow> triple observable" where
  "dispatch handler ev =
     catchError (\<lambda>err. rx_of (ev, err, Null))
       (rx_map (\<lambda>val. (ev, Null, val))
         (mapToObservable handler (rx_of ev)))"

definition run ::
  "(request_event observable \<Rightarrow> handler_result) \<Rightarrow> request_event observable
     \<Rightarrow> triple observable" where
  "run handler requests = multicast (mergeMap (dispatch handler) requests)"

text \<open>
  The function that \<^verbatim>\<open>listen\<close> subscribes: what it does with one triple, on the response
  handle of the triple's event.
\<close>

fun subscriber :: "platform \<Rightarrow> triple \<Rightarrow> server_response \<Rightarrow> effect" where
  "subscriber P (ev, err, val) r =
     (if truthy err then sendResponse P (snd (prepareErrorResponse P err)) r
      else if val \<noteq> Undefined then
        (case prepareResponse val of
           Inl e \<Rightarrow> Threw e r
         | Inr response \<Rightarrow> sendResponse P response r)
      else Done r)"



section \<open>Example inputs\<close>

text \<open>
  A runtime in production mode. The only values the examples below serialise with
  \<^verbatim>\<open>JSON.stringify\<close> are promises, whose JSON text is \<^verbatim>\<open>{}\<close>.
\<close>

definition example_runtime :: platform where
  "example_runtime =
     \<lparr>NODE_ENV = None, JSON_stringify = (\<lambda>v indent. ''{}''),
      captureStackTrace = (\<lambda>message. ''Error: '' @ message)\<rparr>"

definition example_event :: request_event where
  "example_event = \<lparr>req = 0, res = 0\<rparr>"

definition resolving_handler :: "request_event observable \<Rightarrow> handler_result" where
  "resolving_handler x = Returns (Promise (Fulfilled (Str ''ok'')))"

definition rejecting_handler :: "request_event observable \<Rightarrow> handler_result" where
  "rejecting_handler x = Returns (Promise (Rejected (Error ''boom'' ''Error: boom'')))"

definition counting_handler :: "request_event observable \<Rightarrow> handler_result" where
  "counting_handler x = ReturnsObservable (Observable [Num 1, Num 2] Completed)"

definition silent_handler :: "request_event observable \<Rightarrow> handler_result" where
  "silent_handler x = ReturnsObservable (Observable [] Completed)"

definition failing_handler :: "request_event observable \<Rightarrow> handler_result" where
  "failing_handler x = ReturnsObservable (Observable [Num 1] (Errored (Str ''late'')))"

definition zero_handler :: "request_event observable \<Rightarrow> handler_result" where
  "zero_handler x = Returns (Num 0)"

definition manual_handler :: "request_event observable \<Rightarrow> handler_result" where
  "manual_handler x = Returns Undefined"

definition undefined_later_handler :: "request_event observable \<Rightarrow> handler_result" where
  "undefined_later_handler x = Returns (Promise (Fulfilled Undefined))"


definition null_handler :: "request_event observable \<Rightarrow> handler_result" where
  "null_handler x = Returns Null"



definition crashing_handler :: "request_event observable \<Rightarrow> handler_result" where
  "crashing_handler x = Throws (Error ''boom'' ''Error: boom at handler'')"


section \<open>The response handle: setting headers and ending\<close>

lemma valid_Content_Type: "validHeaderName ''Content-Type''"
  by (simp add: validHeaderName_def token_char_def)
lemma valid_octet_stream: "validHeaderValue (HStr ''application/octet-stream'')"
  by (simp add: header_char_def)
lemma valid_json: "validHeaderValue (HStr ''application/json; charset=utf-8'')"
  by (simp add: header_char_def)


lemma setHeader_frame:
  "head (state_of (setHeader name v r)) = head r \<and>
   hasBody (state_of (setHeader name v r)) = hasBody r \<and>
   body (state_of (setHeader name v r)) = body r \<and>
   finished (state_of (setHeader name v r)) = finished r \<and>
   res_statusCode (state_of (setHeader name v r)) = res_statusCode r"
  by (simp add: setHeader_def)

lemma setHeaders_frame:
  "head (state_of (setHeaders hs r)) = head r \<and>
   hasBody (state_of (setHeaders hs r)) = hasBody r \<and>
   body (state_of (setHeaders hs r)) = body r \<and>
   finished (state_of (setHeaders hs r)) = finished r \<and>
   res_statusCode (state_of (setHeaders hs r)) = res_statusCode r"
proof (induction hs arbitrary: r)
  case Nil
  show ?case by simp
next
  case (Cons h hs)
  obtain name v where h: "h = (name, v)" by (cases h)
  show ?case
  proof (cases "setHeader name v r")
    case (Done r1)
    with Cons [of r1] setHeader_frame [of name v r] h show ?thesis by simp
  next
    case (Threw e r1)
    with setHeader_frame [of name v r] h show ?thesis by simp
  qed
qed




lemma res_end_frame:
  "res_headers (state_of (res_end chunk r)) = res_headers r \<and>
   res_statusCode (state_of (res_end chunk r)) = res_statusCode r"
  by (simp add: res_end_def writeHead_def)

lemma thrown_and_then_Threw: "thrown (and_then m (Threw e)) \<noteq> None"
  by (cases m) simp_all

lemma state_of_and_then_Threw: "state_of (and_then m (Threw e)) = state_of m"
  by (cases m) simp_all











section \<open>Dispatch of one request, and of all of them\<close>

lemma dispatch_Returns:
  "handler (rx_of ev) = Returns v \<Longrightarrow> dispatch handler ev = Observable [(ev, Null, v)] Completed"
  by (simp add: dispatch_def mapToObservable_def rx_of_def)

lemma dispatch_Throws:
  "handler (rx_of ev) = Throws err \<Longrightarrow> dispatch handler ev = Observable [(ev, err, Null)] Completed"
  by (simp add: dispatch_def mapToObservable_def rx_of_def throwError_def)

lemma dispatch_ReturnsObservable:
  "handler (rx_of ev) = ReturnsObservable (Observable vs t) \<Longrightarrow>
     dispatch handler ev =
       Observable (map (\<lambda>v. (ev, Null, v)) vs @ (case t of Errored err \<Rightarrow> [(ev, err, Null)] | _ \<Rightarrow> []))
         (case t of Errored err \<Rightarrow> Completed | _ \<Rightarrow> t)"
  by (cases t) (simp_all add: dispatch_def mapToObservable_def rx_of_def)

lemma dispatch_not_Errored: "ending (dispatch handler ev) \<noteq> Errored err"
proof (cases "handler (rx_of ev)")
  case (Throws e)
  then show ?thesis by (simp add: dispatch_Throws)
next
  case (ReturnsObservable ob)
  obtain vs t where "ob = Observable vs t" by (cases ob)
  with ReturnsObservable show ?thesis by (cases t) (simp_all add: dispatch_ReturnsObservable)
next
  case (Returns v)
  then show ?thesis by (simp add: dispatch_Returns)
qed

lemma emitted_prepend: "emitted (prepend xs ob) = xs @ emitted ob"
  by (cases ob) simp


lemma mergeMap_from_emitted:
  "(\<And>x err. ending (project x) \<noteq> Errored err) \<Longrightarrow>
     emitted (mergeMap_from project xs t idle) = concat (map (\<lambda>x. emitted (project x)) xs)"
proof (induction xs arbitrary: idle)
  case Nil
  show ?case by simp
next
  case (Cons x xs)
  obtain ys t' where p: "project x = Observable ys t'" by (cases "project x")
  with Cons.prems [of x] have ne: "\<And>err. t' \<noteq> Errored err" by simp
  show ?case
  proof (cases t')
    case (Errored e)
    with ne show ?thesis by blast
  next
    case Completed
    with p Cons.IH [OF Cons.prems] show ?thesis by (simp add: emitted_prepend)
  next
    case Pending
    with p Cons.IH [OF Cons.prems] show ?thesis by (simp add: emitted_prepend)
  qed
qed


lemma run_emitted:
  "emitted (run handler requests) = concat (map (\<lambda>ev. emitted (dispatch handler ev)) (emitted requests))"
  by (simp add: run_def multicast_def mergeMap_def mergeMap_from_emitted dispatch_not_Errored)






section \<open>The claims\<close>

subsection \<open>C1: a promise returned by the handler\<close>

text \<open>
  C1, as stated, fails. A handler that returns a promise settling to \<^verbatim>\<open>'ok'\<close> gives one
  triple whose value is the promise object, not \<^verbatim>\<open>'ok'\<close>; a handler that returns a promise
  rejecting with an error gives a value triple holding that promise, not an error triple.
\<close>

theorem promise_is_not_awaited_counterexample:
  "dispatch resolving_handler example_event =
     Observable [(example_event, Null, Promise (Fulfilled (Str ''ok'')))] Completed \<and>
   emitted (dispatch resolving_handler example_event) \<noteq> [(example_event, Null, Str ''ok'')] \<and>
   dispatch rejecting_handler example_event =
     Observable [(example_event, Null, Promise (Rejected (Error ''boom'' ''Error: boom'')))] Completed \<and>
   emitted (dispatch rejecting_handler example_event) \<noteq>
     [(example_event, Error ''boom'' ''Error: boom'', Null)]"
  by (simp add: dispatch_Returns resolving_handler_def rejecting_handler_def)

text \<open>
  C1, amended. For every handler that returns a promise, the dispatch pipeline does not
  wait for it to settle: the request's single triple is \<open>(event, null, promise)\<close>, with the
  promise object itself as the value, whether it later fulfils or rejects. A value that
  the handler throws is captured as the request's error, in the single triple
  \<open>(event, err, null)\<close>.
\<close>

theorem promise_is_emitted_unsettled:
  "(handler (rx_of ev) = Returns (Promise p) \<longrightarrow>
      dispatch handler ev = Observable [(ev, Null, Promise p)] Completed \<and>
      run handler (Observable [ev] Completed) = Observable [(ev, Null, Promise p)] Completed) \<and>
   (handler (rx_of ev) = Throws err \<longrightarrow>
      dispatch handler ev = Observable [(ev, err, Null)] Completed \<and>
      run handler (Observable [ev] Completed) = Observable [(ev, err, Null)] Completed)"
  by (simp add: dispatch_Returns dispatch_Throws run_def multicast_def mergeMap_def)

text \<open>C1, amended, at a handler returning a fulfilled promise and at one throwing an error.\<close>

theorem promise_is_emitted_unsettled_witness:
  "resolving_handler (rx_of example_event) = Returns (Promise (Fulfilled (Str ''ok''))) \<and>
   dispatch resolving_handler example_event =
     Observable [(example_event, Null, Promise (Fulfilled (Str ''ok'')))] Completed \<and>
   crashing_handler (rx_of example_event) = Throws (Error ''boom'' ''Error: boom at handler'') \<and>
   run crashing_handler (Observable [example_event] Completed) =
     Observable [(example_event, Error ''boom'' ''Error: boom at handler'', Null)] Completed"
  using promise_is_emitted_unsettled [of resolving_handler example_event "Fulfilled (Str ''ok'')"]
    promise_is_emitted_unsettled
      [of crashing_handler example_event _ "Error ''boom'' ''Error: boom at handler''"]
  by (simp add: resolving_handler_def crashing_handler_def)

subsection \<open>C2: the triples of one request\<close>

text \<open>
  C2, as stated, fails. A handler returning a sequence of the two values 1 and 2 gives two
  triples, not the single triple of the final value 2; a handler returning the empty
  sequence gives none.
\<close>

theorem one_triple_per_request_counterexample:
  "emitted (dispatch counting_handler example_event) =
     [(example_event, Null, Num 1), (example_event, Null, Num 2)] \<and>
   length (emitted (dispatch counting_handler example_event)) \<noteq> 1 \<and>
   emitted (dispatch counting_handler example_event) \<noteq> [(example_event, Null, Num 2)] \<and>
   emitted (dispatch silent_handler example_event) = []"
  by (simp add: dispatch_ReturnsObservable counting_handler_def silent_handler_def)

text \<open>
  C2, amended. For every Request Event, a handler that returns a value that is not a
  sequence, or that throws, gives exactly one triple: \<open>(event, null, value)\<close> or
  \<open>(event, error, null)\<close>. A handler that returns a multi-step sequence gives one triple
  \<open>(event, null, v)\<close> for every value \<open>v\<close> the sequence emits, in order, followed by
  \<open>(event, error, null)\<close> when the sequence fails. Every triple carries the request's
  event, and its error or its value is \<open>null\<close>.
\<close>

theorem one_triple_per_emitted_value:
  "(handler (rx_of ev) = Returns v \<longrightarrow> emitted (dispatch handler ev) = [(ev, Null, v)]) \<and>
   (handler (rx_of ev) = Throws err \<longrightarrow> emitted (dispatch handler ev) = [(ev, err, Null)]) \<and>
   (handler (rx_of ev) = ReturnsObservable (Observable vs t) \<longrightarrow>
      emitted (dispatch handler ev) =
        map (\<lambda>v. (ev, Null, v)) vs @ (case t of Errored err \<Rightarrow> [(ev, err, Null)] | _ \<Rightarrow> [])) \<and>
   list_all (\<lambda>(ev', err', val'). ev' = ev \<and> (err' = Null \<or> val' = Null))
     (emitted (dispatch handler ev))"
proof -
  have "list_all (\<lambda>(ev', err', val'). ev' = ev \<and> (err' = Null \<or> val' = Null))
     (emitted (dispatch handler ev))"
  proof (cases "handler (rx_of ev)")
    case (Throws e)
    then show ?thesis by (simp add: dispatch_Throws)
  next
    case (ReturnsObservable ob)
    obtain ws u where "ob = Observable ws u" by (cases ob)
    with ReturnsObservable show ?thesis
      by (cases u) (simp_all add: dispatch_ReturnsObservable list_all_iff)
  next
    case (Returns w)
    then show ?thesis by (simp add: dispatch_Returns)
  qed
  then show ?thesis
    by (simp add: dispatch_Returns dispatch_Throws dispatch_ReturnsObservable)
qed

text \<open>
  C2, amended, at a handler returning 0, at one throwing an error, and at one returning
  a sequence that emits 1 and then fails.
\<close>

theorem one_triple_per_emitted_value_witness:
  "zero_handler (rx_of example_event) = Returns (Num 0) \<and>
   emitted (dispatch zero_handler example_event) = [(example_event, Null, Num 0)] \<and>
   crashing_handler (rx_of example_event) = Throws (Error ''boom'' ''Error: boom at handler'') \<and>
   emitted (dispatch crashing_handler example_event) =
     [(example_event, Error ''boom'' ''Error: boom at handler'', Null)] \<and>
   failing_handler (rx_of example_event) =
     ReturnsObservable (Observable [Num 1] (Errored (Str ''late''))) \<and>
   emitted (dispatch failing_handler example_event) =
     [(example_event, Null, Num 1), (example_event, Str ''late'', Null)]"
  using one_triple_per_emitted_value [of zero_handler example_event "Num 0"]
    one_triple_per_emitted_value
      [of crashing_handler example_event _ "Error ''boom'' ''Error: boom at handler''"]
    one_triple_per_emitted_value
      [of failing_handler example_event _ _ "[Num 1]" "Errored (Str ''late'')"]
  by (simp add: zero_handler_def crashing_handler_def failing_handler_def)

subsection \<open>C3: a handler that returns null\<close>

text \<open>
  C3 on the code: for a handler whose value is \<^verbatim>\<open>null\<close> and not wrapped by \<^verbatim>\<open>send\<close>,
  \<^verbatim>\<open>prepareResponse(null)\<close> reads \<^verbatim>\<open>null[IS_RESPONSE]\<close> and throws a TypeError, so the
  subscriber throws before \<^verbatim>\<open>sendResponse\<close> is called and the response handle is left as
  it was: no status 200 and no empty body are written. Only \<^verbatim>\<open>null\<close> wrapped by
  \<^verbatim>\<open>send\<close> reaches the branch of \<^verbatim>\<open>sendResponse\<close> that sets the status code and ends
  the response with no body.
\<close>

theorem null_value_throws_before_sending:
  "dispatch null_handler ev = Observable [(ev, Null, Null)] Completed \<and>
   prepareResponse Null = Inl TypeError \<and>
   subscriber P (ev, Null, Null) r = Threw TypeError r \<and>
   subscriber P (ev, Null, Descriptor (send Null (Some code) None)) r =
     res_end [] (r\<lparr>res_statusCode := code\<rparr>)"
  by (simp add: dispatch_Returns null_handler_def send_def sendResponse_def)

subsection \<open>C4: the headers of a descriptor\<close>




subsection \<open>C5: mapping an error to a response\<close>




subsection \<open>C6: failure at start, and shutdown\<close>




subsection \<open>C7: a handler that returns undefined\<close>

text \<open>
  C7, as stated, fails. The value \<^verbatim>\<open>null\<close> is not passed through the serializer:
  \<^verbatim>\<open>prepareResponse(null)\<close> throws a TypeError before \<^verbatim>\<open>sendResponse\<close> is called and
  nothing is written. And a handler whose promise resolves to \<^verbatim>\<open>undefined\<close> is answered:
  the promise is the value, and status 200 with the JSON text of the promise is written.
\<close>

theorem undefined_or_falsy_counterexample:
  "prepareResponse Null = Inl TypeError \<and>
   subscriber example_runtime (example_event, Null, Null) new_response =
     Threw TypeError new_response \<and>
   dispatch undefined_later_handler example_event =
     Observable [(example_event, Null, Promise (Fulfilled Undefined))] Completed \<and>
   subscriber example_runtime (example_event, Null, Promise (Fulfilled Undefined)) new_response =
     Done \<lparr>res_statusCode = 200,
           res_headers = [(''content-type'', HStr ''application/json; charset=utf-8''),
                          (''content-length'', HNum 2)],
           head = Some (200, [(''content-type'', HStr ''application/json; charset=utf-8''),
                              (''content-length'', HNum 2)]),
           hasBody = True, body = ''{}'', finished = True\<rparr>"
  by code_simp

text \<open>
  C7, amended. For every handler that returns \<^verbatim>\<open>undefined\<close> itself, or a sequence that
  emits \<^verbatim>\<open>undefined\<close>, the triple is \<open>(event, null, undefined)\<close> and the subscriber leaves
  the response handle untouched. Every other value except \<^verbatim>\<open>null\<close> is accepted by
  \<^verbatim>\<open>prepareResponse\<close> and handed to \<^verbatim>\<open>sendResponse\<close>; the falsy values \<^verbatim>\<open>0\<close>, \<^verbatim>\<open>false\<close>
  and \<^verbatim>\<open>''\<close> are handed to it wrapped with status 200 and no headers.
\<close>

theorem undefined_value_sends_nothing:
  "(handler (rx_of ev) = Returns Undefined \<or>
    handler (rx_of ev) = ReturnsObservable (Observable [Undefined] Completed) \<longrightarrow>
      dispatch handler ev = Observable [(ev, Null, Undefined)] Completed) \<and>
   subscriber P (ev, Null, Undefined) r = Done r \<and>
   (val \<noteq> Undefined \<and> val \<noteq> Null \<longrightarrow>
      (\<exists>response. prepareResponse val = Inr response \<and>
         subscriber P (ev, Null, val) r = sendResponse P response r)) \<and>
   subscriber P (ev, Null, Num 0) r = sendResponse P (Response False (Num 0) 200 []) r \<and>
   subscriber P (ev, Null, Bool False) r = sendResponse P (Response False (Bool False) 200 []) r \<and>
   subscriber P (ev, Null, Str []) r = sendResponse P (Response False (Str []) 200 []) r"
proof -
  have "val \<noteq> Undefined \<Longrightarrow> val \<noteq> Null \<Longrightarrow>
      \<exists>response. prepareResponse val = Inr response \<and>
         subscriber P (ev, Null, val) r = sendResponse P response r"
    by (cases val) simp_all
  then show ?thesis
    by (auto simp: dispatch_Returns dispatch_ReturnsObservable)
qed

text \<open>
  C7, amended, at a handler returning \<^verbatim>\<open>undefined\<close> and at the value \<^verbatim>\<open>''\<close>, which is
  answered with status 200 and an empty body.
\<close>

theorem undefined_value_sends_nothing_witness:
  "manual_handler (rx_of example_event) = Returns Undefined \<and>
   dispatch manual_handler example_event = Observable [(example_event, Null, Undefined)] Completed \<and>
   subscriber example_runtime (example_event, Null, Undefined) new_response = Done new_response \<and>
   Str [] \<noteq> Undefined \<and> Str [] \<noteq> Null \<and>
   prepareResponse (Str []) = Inr (Response False (Str []) 200 []) \<and>
   subscriber example_runtime (example_event, Null, Str []) new_response =
     Done \<lparr>res_statusCode = 200, res_headers = [(''content-length'', HNum 0)],
           head = Some (200, [(''content-length'', HNum 0)]),
           hasBody = True, body = [], finished = True\<rparr>"
proof -
  have s: "sendResponse example_runtime (Response False (Str []) 200 []) new_response =
     Done \<lparr>res_statusCode = 200, res_headers = [(''content-length'', HNum 0)],
           head = Some (200, [(''content-length'', HNum 0)]),
           hasBody = True, body = [], finished = True\<rparr>"
    by code_simp
  from undefined_value_sends_nothing
      [of manual_handler example_event example_runtime new_response "Str []"] s
  show ?thesis by (simp add: manual_handler_def)
qed

subsection \<open>C8: send and a descriptor written by hand\<close>

text \<open>
  C8. For every data, status code and headers, the value of \<^verbatim>\<open>send(data, code, headers)\<close>
  is passed on unchanged by \<^verbatim>\<open>prepareResponse\<close>, and the serializer does with it exactly
  what it does with an object that has the same \<^verbatim>\<open>data\<close>, \<^verbatim>\<open>statusCode\<close> and
  \<^verbatim>\<open>headers\<close> and was not made by \<^verbatim>\<open>send\<close>: the same status, headers, body and outcome
  on every response handle.
\<close>

theorem send_equals_manual_descriptor:
  "prepareResponse (Descriptor (send d (Some code) (Some hs))) = Inr (send d (Some code) (Some hs)) \<and>
   sendResponse P (send d (Some code) (Some hs)) r = sendResponse P (Response False d code hs) r"
proof -
  have "sendResponse P (send d (Some code) (Some hs)) r = sendResponse P (Response False d code hs) r"
    by (simp only: sendResponse_def send_def response.sel option.case)
  then show ?thesis by (simp add: send_def)
qed

subsection \<open>C9: null data and the descriptor's headers\<close>

text \<open>
  C9. For every Response Descriptor whose data is \<^verbatim>\<open>null\<close>, the serializer sets the status
  code and ends the response; the descriptor's headers play no part: the header table of
  the response is what it was, and on a new response the head written for
  \<^verbatim>\<open>send(null, code, headers)\<close> has no headers.
\<close>

theorem null_data_writes_no_headers:
  "sendResponse P (Response tag Null code hs) r = res_end [] (r\<lparr>res_statusCode := code\<rparr>) \<and>
   res_headers (state_of (sendResponse P (Response tag Null code hs) r)) = res_headers r \<and>
   head (state_of (sendResponse P (send Null (Some code) (Some hs)) new_response)) =
     (if code < 100 \<or> 999 < code then None else Some (code, []))"
  by (simp add: sendResponse_def send_def res_end_def writeHead_def headersSent_def new_response_def)

subsection \<open>C10: undefined data\<close>

text \<open>
  C10. For every Response Descriptor whose data is \<^verbatim>\<open>undefined\<close>, the serializer applies
  the headers, passes every typed branch, and throws at \<^verbatim>\<open>Buffer.byteLength(undefined)\<close>:
  it always throws, and the head, the body and the ended flag of the response are what
  they were. A handler that returns \<^verbatim>\<open>send(undefined)\<close> reaches this through the
  subscriber.
\<close>

theorem undefined_data_throws:
  "sendResponse P (Response tag Undefined code hs) r =
     and_then (setHeaders hs (r\<lparr>res_statusCode := code\<rparr>)) (Threw ERR_INVALID_ARG_TYPE) \<and>
   thrown (sendResponse P (Response tag Undefined code hs) r) \<noteq> None \<and>
   finished (state_of (sendResponse P (Response tag Undefined code hs) r)) = finished r \<and>
   head (state_of (sendResponse P (Response tag Undefined code hs) r)) = head r \<and>
   body (state_of (sendResponse P (Response tag Undefined code hs) r)) = body r \<and>
   subscriber P (ev, Null, Descriptor (send Undefined c h)) r = sendResponse P (send Undefined c h) r"
proof -
  have eq: "sendResponse P (Response tag Undefined code hs) r =
     and_then (setHeaders hs (r\<lparr>res_statusCode := code\<rparr>)) (Threw ERR_INVALID_ARG_TYPE)"
    by (simp add: sendResponse_def)
  have sub: "subscriber P (ev, Null, Descriptor (send Undefined c h)) r = sendResponse P (send Undefined c h) r"
    by (simp add: send_def)
  from eq sub show ?thesis
    by (simp add: thrown_and_then_Threw state_of_and_then_Threw setHeaders_frame)
qed

end
